theory Spec2Isabelle
  imports Main
begin

section \<open>Python values used by \<open>modules/websearch.py\<close> and \<open>modules/llm.py\<close>\<close>

text \<open>
  A Python \<open>str\<close> is a sequence of Unicode code points and \<open>len\<close> counts code points,
  so a string is modelled as a list of code points (natural numbers), not as a list of
  bytes. \<open>lit\<close> turns a literal of the source into such a list.
\<close>

type_synonym str = "nat list"

definition lit :: "string \<Rightarrow> str" where
  "lit s = map of_char s"

text \<open>The characters the source names.\<close>

definition newline :: nat where [simp]: "newline = 10"

definition dquote :: nat where [simp]: "dquote = 34"

definition space :: nat where [simp]: "space = 32"

definition squote :: nat where [simp]: "squote = 39"

text \<open>
  \<open>str.isspace\<close> for one code point: the characters that \<open>str.strip()\<close> and
  \<open>str.split()\<close> (both without argument) treat as whitespace.
\<close>

definition isspace :: "nat \<Rightarrow> bool" where
  "isspace c =
     ((9 \<le> c \<and> c \<le> 13) \<or> (28 \<le> c \<and> c \<le> 32) \<or> c = 133 \<or> c = 160 \<or> c = 5760 \<or>
      (8192 \<le> c \<and> c \<le> 8202) \<or> c = 8232 \<or> c = 8233 \<or> c = 8239 \<or> c = 8287 \<or>
      c = 12288)"

text \<open>\<open>s.strip()\<close> and \<open>s.strip(chars)\<close>: drop from both ends while the test holds.\<close>

definition strip_where :: "(nat \<Rightarrow> bool) \<Rightarrow> str \<Rightarrow> str" where
  "strip_where P s = rev (dropWhile P (rev (dropWhile P s)))"

definition strip :: "str \<Rightarrow> str" where
  "strip s = strip_where isspace s"

definition strip_chars :: "str \<Rightarrow> str \<Rightarrow> str" where
  "strip_chars chars s = strip_where (\<lambda>c. c \<in> set chars) s"

text \<open>
  \<open>s.split(sep)\<close> for a one-character separator: every occurrence of the separator
  ends a piece, empty pieces are kept, and the empty string gives one empty piece.
\<close>

fun split_on :: "nat \<Rightarrow> str \<Rightarrow> str list" where
  "split_on sep [] = [[]]"
| "split_on sep (c # cs) =
     (if c = sep then [] # split_on sep cs
      else (case split_on sep cs of
              [] \<Rightarrow> [[c]]
            | piece # pieces \<Rightarrow> (c # piece) # pieces))"

text \<open>
  \<open>s.split()\<close> without argument: the maximal runs of non-whitespace characters, in
  order; no empty piece is produced.
\<close>

function split_ws :: "str \<Rightarrow> str list" where
  "split_ws [] = []"
| "split_ws (c # cs) =
     (if isspace c then split_ws cs
      else (c # takeWhile (\<lambda>d. \<not> isspace d) cs) # split_ws (dropWhile (\<lambda>d. \<not> isspace d) cs))"
  by pat_completeness auto
termination
  by (relation "measure length") (auto simp: le_imp_less_Suc length_dropWhile_le)

text \<open>\<open>sep.join(pieces)\<close>.\<close>

fun join :: "str \<Rightarrow> str list \<Rightarrow> str" where
  "join sep [] = []"
| "join sep [p] = p"
| "join sep (p # q # ps) = p @ sep @ join sep (q # ps)"

text \<open>How an f-string prints a value that is a string or \<open>None\<close>.\<close>

definition format_opt :: "str option \<Rightarrow> str" where
  "format_opt v = (case v of None \<Rightarrow> lit ''None'' | Some s \<Rightarrow> s)"

section \<open>Search results\<close>

text \<open>
  A provider result is a dictionary from field names to strings; \<open>r.get(k)\<close> is \<open>None\<close>
  when the field is missing.
\<close>

type_synonym raw_result = "string \<rightharpoonup> str"

text \<open>
  \<open>perform_search\<close> is the only place that builds a result dictionary, always with the
  keys \<open>title\<close>, \<open>link\<close> and \<open>description\<close>, each holding a string or \<open>None\<close>; the
  orchestrator later adds the key \<open>content\<close>. The dictionary is modelled as a record of
  these four fields; \<open>content = None\<close> stands for the key being absent, the other three
  hold the Python value (\<open>None\<close> for Python's \<open>None\<close>).
\<close>

record result =
  title :: "str option"
  link :: "str option"
  description :: "str option"
  content :: "str option"

section \<open>Deduplication and selection (\<open>web_search_task\<close>, lines 109 to 119)\<close>

text \<open>
  The loop over \<open>all_results\<close> with its two variables \<open>unique_links\<close> (a set) and
  \<open>unique_results\<close> (a list that grows at its end).
\<close>

fun dedupe_loop :: "str option set \<Rightarrow> result list \<Rightarrow> result list \<Rightarrow> result list" where
  "dedupe_loop unique_links unique_results [] = unique_results"
| "dedupe_loop unique_links unique_results (r # all_results) =
     (if link r \<notin> unique_links
      then dedupe_loop (insert (link r) unique_links) (unique_results @ [r]) all_results
      else dedupe_loop unique_links unique_results all_results)"

text \<open>
  The deduplication followed by the slice \<open>unique_results[:3]\<close>; the bound of the slice
  is a parameter here, and \<open>web_search_task\<close> uses it with 3.
\<close>

definition dedupeAndSelect :: "nat \<Rightarrow> result list \<Rightarrow> result list" where
  "dedupeAndSelect topK all_results = take topK (dedupe_loop {} [] all_results)"

text \<open>
  The specification's description of the same list: the candidates whose link occurs for
  the first time at their position, in input order.
\<close>

definition first_occurrences :: "result list \<Rightarrow> result list" where
  "first_occurrences cs =
     map (\<lambda>i. cs ! i) (filter (\<lambda>i. link (cs ! i) \<notin> link ` set (take i cs)) [0..<length cs])"

section \<open>Exceptions, effects and the external services\<close>

text \<open>
  A value of \<open>exn\<close> is a raised exception that \<open>except Exception\<close> catches; the
  string is its message, as \<open>str(e)\<close> gives it. Signals outside that class (an
  interrupt, a cancelled task) are not part of the model.
\<close>

datatype exn = Exception string

definition exn_message :: "exn \<Rightarrow> str" where
  "exn_message e = (case e of Exception m \<Rightarrow> lit m)"

text \<open>
  A computation that may call the external services takes the state of the outside world
  and gives back either the raised exception or its result, with the world after it.
  Nothing is assumed about the world: two calls with the same arguments may differ.
\<close>

type_synonym ('a, 'w) io = "'w \<Rightarrow> (exn + 'a) \<times> 'w"

definition io_return :: "'a \<Rightarrow> ('a, 'w) io" where
  "io_return x = (\<lambda>w. (Inr x, w))"

definition io_lift :: "exn + 'a \<Rightarrow> ('a, 'w) io" where
  "io_lift v = (\<lambda>w. (v, w))"

text \<open>Sequencing: an exception of the first part skips the rest.\<close>

definition io_bind :: "('a, 'w) io \<Rightarrow> ('a \<Rightarrow> ('b, 'w) io) \<Rightarrow> ('b, 'w) io" where
  "io_bind m f =
     (\<lambda>w. case m w of (Inl e, w') \<Rightarrow> (Inl e, w') | (Inr x, w') \<Rightarrow> f x w')"

text \<open>
  \<open>try: body except Exception as e: handler\<close>. An exception raised by the handler
  itself is not caught: it leaves the statement.
\<close>

definition io_try :: "('a, 'w) io \<Rightarrow> (exn \<Rightarrow> ('a, 'w) io) \<Rightarrow> ('a, 'w) io" where
  "io_try body handler =
     (\<lambda>w. case body w of (Inl e, w') \<Rightarrow> handler e w' | (Inr x, w') \<Rightarrow> (Inr x, w'))"

subsection \<open>\<open>print\<close>\<close>

text \<open>
  \<open>print\<close> writes its text to the standard output, which is taken to be open and to
  encode as UTF-8 with strict error handling (Python's default). A Python string may hold
  lone surrogate code points (U+D800 to U+DFFF); UTF-8 cannot encode them, and \<open>print\<close>
  then raises \<open>UnicodeEncodeError\<close>. Every other code point is encoded.

  The value a message interpolates is either a string, printed as it is, or a list of
  strings, printed through \<open>repr\<close>, which escapes every surrogate: such a part is
  always written.
\<close>

definition is_surrogate :: "nat \<Rightarrow> bool" where
  "is_surrogate c = (55296 \<le> c \<and> c \<le> 57343)"

definition utf8_encodable :: "str \<Rightarrow> bool" where
  "utf8_encodable s = list_all (\<lambda>c. \<not> is_surrogate c) s"

datatype printed = Str str | Repr "str list"

fun printed_encodable :: "printed \<Rightarrow> bool" where
  "printed_encodable (Str s) = utf8_encodable s"
| "printed_encodable (Repr xs) = True"

definition print :: "printed list \<Rightarrow> (unit, 'w) io" where
  "print parts =
     (if list_all printed_encodable parts then io_return ()
      else io_lift (Inl (Exception ''UnicodeEncodeError'')))"

subsection \<open>The libraries\<close>

text \<open>
  What \<open>requests.get\<close> returns: the status code and the body that \<open>response.text\<close>
  gives.
\<close>

record response =
  status_code :: nat
  body :: str

text \<open>
  \<open>response.raise_for_status()\<close> of the \<open>requests\<close> library raises \<open>HTTPError\<close> for
  the client and server error codes, 400 to 599, and for no other status.
\<close>

definition raise_for_status :: "response \<Rightarrow> exn + unit" where
  "raise_for_status r =
     (if 400 \<le> status_code r \<and> status_code r < 600 then Inl (Exception ''HTTPError'')
      else Inr ())"

text \<open>
  The other calls into libraries, as parameters:
  \<^item> \<open>openai_create\<close>: \<open>client.chat.completions.create(...)\<close> followed by
    \<open>response.choices[0].message.content\<close>, a string or \<open>None\<close>;
  \<^item> \<open>gemini_generate\<close>: \<open>model.generate_content_async(prompt)\<close> followed by
    \<open>response.text\<close>;
  \<^item> \<open>ddgs_text\<close>: \<open>DDGS().text(query, max_results=n)\<close>, read to its end;
  \<^item> \<open>requests_get\<close>: \<open>requests.get(url, headers=headers, timeout=5)\<close>; the argument
    is the value of a result's \<open>link\<close>, which may be \<open>None\<close>;
  \<^item> \<open>soup_text\<close>: the \<open>BeautifulSoup\<close> parse of \<open>response.text\<close>, the removal of
    \<open>script\<close> and \<open>style\<close> elements and \<open>get_text(separator=' ', strip=True)\<close>.
  Each of them may raise.
\<close>

record 'w env =
  openai_create :: "str \<Rightarrow> (str option, 'w) io"
  gemini_generate :: "str \<Rightarrow> (str, 'w) io"
  ddgs_text :: "str \<Rightarrow> nat \<Rightarrow> (raw_result list, 'w) io"
  requests_get :: "str option \<Rightarrow> (response, 'w) io"
  soup_text :: "str \<Rightarrow> exn + str"

section \<open>\<open>modules/llm.py\<close>: \<open>generate_response\<close>\<close>

definition generate_response :: "'w env \<Rightarrow> str \<Rightarrow> string \<Rightarrow> (str option, 'w) io" where
  "generate_response env prompt model_type =
     io_try
       (if model_type = ''openai'' then openai_create env prompt
        else if model_type = ''gemini''
        then io_bind (gemini_generate env prompt) (\<lambda>text. io_return (Some text))
        else io_return None)
       (\<lambda>e.
          io_bind
            (print [Str (lit ''Error generating response from '' @ lit model_type @ lit '': '' @
                         exn_message e)])
            (\<lambda>_. io_return None))"

section \<open>\<open>modules/websearch.py\<close>\<close>

subsection \<open>\<open>decompose_query\<close>\<close>

definition decompose_prompt :: "str \<Rightarrow> str" where
  "decompose_prompt user_query =
     [newline] @
     lit ''    You are a helpful assistant. Break down the following user query into a list of 2-3 specific search queries that would help answer the original request comprehensively.'' @
     [newline] @
     lit ''    Return ONLY a list of queries separated by newlines. No numbering or bullets. Do NOT use double quotes around the queries.'' @
     [newline] @ lit ''    '' @ [newline] @
     lit ''    User Query: '' @ [dquote] @ user_query @ [dquote] @ [newline] @
     lit ''    ''"

text \<open>The list \<open>queries\<close> that line 22 computes from a response.\<close>

definition response_queries :: "str \<Rightarrow> str list" where
  "response_queries response =
     [strip_chars [dquote] (strip q). q \<leftarrow> split_on newline response, strip q \<noteq> []]"

text \<open>\<open>if not response\<close> holds for \<open>None\<close> and for the empty string.\<close>

definition decompose_query :: "'w env \<Rightarrow> str \<Rightarrow> (str list, 'w) io" where
  "decompose_query env user_query =
     io_bind (generate_response env (decompose_prompt user_query) ''openai'') (\<lambda>response.
       case response of
         None \<Rightarrow> io_return [user_query]
       | Some text \<Rightarrow>
           if text = [] then io_return [user_query]
           else
             let queries = response_queries text
             in io_return (if queries \<noteq> [] then queries else [user_query]))"

subsection \<open>\<open>perform_search\<close>\<close>

text \<open>The dictionary built for one provider result (lines 36 to 40).\<close>

definition search_entry :: "raw_result \<Rightarrow> result" where
  "search_entry r =
     \<lparr>title = r ''title'', link = r ''href'', description = r ''body'', content = None\<rparr>"

text \<open>The handler prints the query (line 43) before it returns the empty list.\<close>

definition perform_search :: "'w env \<Rightarrow> str \<Rightarrow> nat \<Rightarrow> (result list, 'w) io" where
  "perform_search env query num_results =
     io_try
       (io_bind (ddgs_text env query num_results) (\<lambda>ddg_results.
          io_return (map search_entry ddg_results)))
       (\<lambda>e.
          io_bind
            (print [Str (lit ''Error performing search for '' @ [squote] @ query @ [squote] @
                         lit '': '' @ exn_message e)])
            (\<lambda>_. io_return []))"

subsection \<open>\<open>scrape_content\<close>\<close>

text \<open>The handler prints the URL (line 66) before it returns the empty string.\<close>

definition scrape_content :: "'w env \<Rightarrow> str option \<Rightarrow> (str, 'w) io" where
  "scrape_content env url =
     io_try
       (io_bind (requests_get env url) (\<lambda>response.
        io_bind (io_lift (raise_for_status response)) (\<lambda>_.
        io_bind (io_lift (soup_text env (body response))) (\<lambda>text.
          io_return (take 2000 (join [space] (split_ws text)))))))
       (\<lambda>e.
          io_bind
            (print [Str (lit ''Failed to scrape '' @ format_opt url @ lit '': '' @ exn_message e)])
            (\<lambda>_. io_return []))"

subsection \<open>\<open>get_relevant_answer\<close>\<close>

text \<open>
  The loop that builds \<open>context\<close>. The keys \<open>title\<close> and \<open>description\<close> are always
  present, so the defaults of \<open>res.get\<close> never apply and the stored value is printed.
\<close>

fun context_loop :: "str \<Rightarrow> result list \<Rightarrow> str" where
  "context_loop context [] = context"
| "context_loop context (res # search_results) =
     context_loop
       (context @
        lit ''Source: '' @ format_opt (title res) @ lit '' ('' @ format_opt (link res) @
          lit '')'' @ [newline] @
        lit ''Description: '' @ format_opt (description res) @ [newline] @
        (case content res of
           None \<Rightarrow> []
         | Some c \<Rightarrow> lit ''Content: '' @ c @ [newline]) @
        lit ''---'' @ [newline])
       search_results"

definition answer_prompt :: "str \<Rightarrow> result list \<Rightarrow> str" where
  "answer_prompt user_query search_results =
     [newline] @
     lit ''    Answer the user query based ONLY on the provided search results.'' @ [newline] @
     lit ''    Cite the sources if possible.'' @ [newline] @
     lit ''    '' @ [newline] @
     lit ''    User Query: '' @ [dquote] @ user_query @ [dquote] @ [newline] @
     lit ''    '' @ [newline] @
     lit ''    Search Results:'' @ [newline] @
     lit ''    '' @ context_loop [] search_results @ [newline] @
     lit ''    ''"

definition get_relevant_answer :: "'w env \<Rightarrow> str \<Rightarrow> result list \<Rightarrow> (str option, 'w) io" where
  "get_relevant_answer env user_query search_results =
     generate_response env (answer_prompt user_query search_results) ''openai''"

subsection \<open>\<open>web_search_task\<close>\<close>

text \<open>
  The loop over the sub-queries (lines 104 to 107); each round prints the sub-query
  (line 105), under no \<open>try\<close>, before it searches.
\<close>

fun search_loop :: "'w env \<Rightarrow> result list \<Rightarrow> str list \<Rightarrow> (result list, 'w) io" where
  "search_loop env all_results [] = io_return all_results"
| "search_loop env all_results (q # sub_queries) =
     io_bind (print [Str (lit ''Searching for: '' @ q)]) (\<lambda>_.
     io_bind (perform_search env q 2) (\<lambda>results.
       search_loop env (all_results @ results) sub_queries))"

text \<open>
  The loop over the selected results (lines 119 to 123); each round prints the link
  (line 120), under no \<open>try\<close>, before it scrapes.
\<close>

fun scrape_loop :: "'w env \<Rightarrow> result list \<Rightarrow> result list \<Rightarrow> (result list, 'w) io" where
  "scrape_loop env final_results [] = io_return final_results"
| "scrape_loop env final_results (res # selected) =
     io_bind (print [Str (lit ''Scraping: '' @ format_opt (link res))]) (\<lambda>_.
     io_bind (scrape_content env (link res)) (\<lambda>text.
       scrape_loop env (final_results @ [res\<lparr>content := Some text\<rparr>]) selected))"

text \<open>Line 99 prints the list of sub-queries, through \<open>repr\<close>.\<close>

definition web_search_task :: "'w env \<Rightarrow> str \<Rightarrow> (str option, 'w) io" where
  "web_search_task env user_query =
     io_bind (decompose_query env user_query) (\<lambda>sub_queries.
     io_bind (print [Str (lit ''Sub-queries: ''), Repr sub_queries]) (\<lambda>_.
     io_bind (search_loop env [] sub_queries) (\<lambda>all_results.
     io_bind (scrape_loop env [] (dedupeAndSelect 3 all_results)) (\<lambda>final_results.
       get_relevant_answer env user_query final_results))))"

section \<open>The parse of the model's response as the specification words it\<close>

text \<open>
  Split on line breaks, trim each line of whitespace and of enclosing double quotes,
  then discard the empty lines.
\<close>

definition spec_parse :: "str \<Rightarrow> str list" where
  "spec_parse response =
     filter (\<lambda>l. l \<noteq> [])
       (map (\<lambda>l. strip_chars [dquote] (strip l)) (split_on newline response))"

section \<open>A scripted outside world for concrete runs\<close>

text \<open>
  The world is the list of outcomes the language model will still give, one per call
  (an exhausted script raises); every search gives \<open>found\<close>, every fetch gives \<open>page\<close>,
  and the text extracted from a body is the body itself.
\<close>

definition script_env ::
  "exn + raw_result list \<Rightarrow> exn + response \<Rightarrow> (exn + str option) list env" where
  "script_env found page =
     \<lparr>openai_create = (\<lambda>prompt w.
        case w of [] \<Rightarrow> (Inl (Exception ''no reply''), []) | v # vs \<Rightarrow> (v, vs)),
      gemini_generate = (\<lambda>prompt. io_lift (Inl (Exception ''not configured''))),
      ddgs_text = (\<lambda>query n. io_lift found),
      requests_get = (\<lambda>url. io_lift page),
      soup_text = (\<lambda>html. Inr html)\<rparr>"

section \<open>Properties of the deduplication\<close>

lemma dedupe_loop_acc:
  "dedupe_loop S acc cs = acc @ dedupe_loop S [] cs"
proof (induction cs arbitrary: S acc)
  case Nil
  show ?case by simp
next
  case (Cons r cs)
  show ?case
  proof (cases "link r \<in> S")
    case True
    then show ?thesis using Cons.IH [of S acc] by simp
  next
    case False
    then show ?thesis
      using Cons.IH [of "insert (link r) S" "acc @ [r]"] Cons.IH [of "insert (link r) S" "[r]"]
      by simp
  qed
qed

lemma dedupe_loop_Cons:
  "dedupe_loop S [] (r # cs) =
     (if link r \<in> S then dedupe_loop S [] cs else r # dedupe_loop (insert (link r) S) [] cs)"
  using dedupe_loop_acc [of "insert (link r) S" "[r]" cs] by simp

lemma dedupe_loop_index:
  "dedupe_loop S [] cs =
     map (\<lambda>i. cs ! i) (filter (\<lambda>i. link (cs ! i) \<notin> S \<union> link ` set (take i cs)) [0..<length cs])"
proof (induction cs arbitrary: S)
  case Nil
  show ?case by simp
next
  case (Cons r cs)
  have upt: "[0..<Suc (length cs)] = 0 # map Suc [0..<length cs]"
    by (simp add: upt_conv_Cons map_Suc_upt del: upt_Suc)
  show ?case
  proof (cases "link r \<in> S")
    case True
    then have "(\<lambda>i. link (cs ! i) \<notin> S \<and> link (cs ! i) \<noteq> link r \<and> Q i) =
               (\<lambda>i. link (cs ! i) \<notin> S \<and> Q i)" for Q
      by (auto simp: fun_eq_iff)
    then show ?thesis
      using True Cons.IH [of S]
      by (simp add: dedupe_loop_Cons upt filter_map comp_def del: upt_Suc dedupe_loop.simps(2))
  next
    case False
    have "(\<lambda>i. link (cs ! i) \<noteq> link r \<and> link (cs ! i) \<notin> S \<and> Q i) =
          (\<lambda>i. link (cs ! i) \<notin> S \<and> link (cs ! i) \<noteq> link r \<and> Q i)" for Q
      by (auto simp: fun_eq_iff)
    then show ?thesis
      using False Cons.IH [of "insert (link r) S"]
      by (simp add: dedupe_loop_Cons upt filter_map comp_def del: upt_Suc dedupe_loop.simps(2))
  qed
qed

lemma dedupe_loop_links:
  "set (map link (dedupe_loop S [] cs)) = link ` set cs - S"
  by (induction cs arbitrary: S) (auto simp: dedupe_loop_Cons simp del: dedupe_loop.simps(2))

lemma dedupe_loop_distinct:
  "distinct (map link (dedupe_loop S [] cs))"
proof (induction cs arbitrary: S)
  case Nil
  show ?case by simp
next
  case (Cons r cs)
  have "link r \<notin> set (map link (dedupe_loop (insert (link r) S) [] cs))"
    unfolding dedupe_loop_links by simp
  then show ?case
    using Cons.IH by (simp add: dedupe_loop_Cons del: dedupe_loop.simps(2) set_map)
qed

lemma dedupe_loop_fixed:
  "distinct (map link xs) \<Longrightarrow> link ` set xs \<inter> S = {} \<Longrightarrow> dedupe_loop S [] xs = xs"
proof (induction xs arbitrary: S)
  case Nil
  show ?case by simp
next
  case (Cons r xs)
  from Cons.prems have "link r \<notin> S" "distinct (map link xs)"
    and "link ` set xs \<inter> insert (link r) S = {}" by auto
  then show ?case
    using Cons.IH [of "insert (link r) S"] by (simp add: dedupe_loop_Cons del: dedupe_loop.simps(2))
qed

lemma dedupe_loop_key:
  "filter (\<lambda>r. link r = k) (dedupe_loop S [] cs) =
     (if k \<in> S then [] else take 1 (filter (\<lambda>r. link r = k) cs))"
proof (induction cs arbitrary: S)
  case Nil
  show ?case by simp
next
  case (Cons r cs)
  show ?case
    using Cons.IH [of S] Cons.IH [of "insert (link r) S"]
    by (auto simp: dedupe_loop_Cons simp del: dedupe_loop.simps(2))
qed

section \<open>What each function returns\<close>

lemma utf8_encodable_Nil [simp]: "utf8_encodable []"
  by (simp add: utf8_encodable_def)

lemma utf8_encodable_append [simp]:
  "utf8_encodable (s @ t) \<longleftrightarrow> utf8_encodable s \<and> utf8_encodable t"
  by (simp add: utf8_encodable_def)

lemma of_char_less_256: "(of_char c :: nat) < 256"
proof -
  have "(of_char c :: nat) mod 256 = of_char c" by (rule of_char_mod_256)
  moreover have "(of_char c :: nat) mod 256 < 256" by simp
  ultimately show ?thesis by simp
qed

lemma utf8_encodable_lit [simp]: "utf8_encodable (lit s)"
proof -
  have "\<not> is_surrogate (of_char c)" for c
    using of_char_less_256 [of c] unfolding is_surrogate_def by linarith
  then show ?thesis
    by (simp add: utf8_encodable_def lit_def list_all_iff)
qed

lemma utf8_encodable_Cons [simp]:
  "utf8_encodable (c # s) \<longleftrightarrow> \<not> is_surrogate c \<and> utf8_encodable s"
  by (simp add: utf8_encodable_def)

lemma utf8_encodable_exn_message [simp]: "utf8_encodable (exn_message e)"
  by (cases e) (simp add: exn_message_def)

lemma print_eq:
  "print parts w =
     (if list_all printed_encodable parts then (Inr (), w)
      else (Inl (Exception ''UnicodeEncodeError''), w))"
  by (simp add: print_def io_return_def io_lift_def)

lemma generate_response_openai:
  "generate_response env prompt ''openai'' w =
     (case openai_create env prompt w of
        (Inl e, w') \<Rightarrow> (Inr None, w')
      | (Inr c, w') \<Rightarrow> (Inr c, w'))"
  by (simp add: generate_response_def io_try_def io_bind_def io_return_def print_eq
      split: prod.splits sum.splits)

lemma generate_response_returns:
  "\<exists>v w'. generate_response env prompt model_type w = (Inr v, w')"
  by (simp add: generate_response_def io_try_def io_bind_def io_return_def print_eq
      split: prod.splits sum.splits)

lemma perform_search_eq:
  "perform_search env query n w =
     (case ddgs_text env query n w of
        (Inl e, w') \<Rightarrow>
          (if utf8_encodable query then (Inr [], w')
           else (Inl (Exception ''UnicodeEncodeError''), w'))
      | (Inr raws, w') \<Rightarrow> (Inr (map search_entry raws), w'))"
  by (simp add: perform_search_def io_try_def io_bind_def io_return_def print_eq is_surrogate_def
      split: prod.splits sum.splits)

lemma scrape_content_eq:
  "scrape_content env url w =
     (case requests_get env url w of
        (Inl e, w') \<Rightarrow>
          (if utf8_encodable (format_opt url) then (Inr [], w')
           else (Inl (Exception ''UnicodeEncodeError''), w'))
      | (Inr response, w') \<Rightarrow>
          (if 400 \<le> status_code response \<and> status_code response < 600
           then (if utf8_encodable (format_opt url) then (Inr [], w')
                 else (Inl (Exception ''UnicodeEncodeError''), w'))
           else
             (case soup_text env (body response) of
                Inl e \<Rightarrow>
                  (if utf8_encodable (format_opt url) then (Inr [], w')
                   else (Inl (Exception ''UnicodeEncodeError''), w'))
              | Inr extracted \<Rightarrow> (Inr (take 2000 (join [space] (split_ws extracted))), w'))))"
  by (simp add: scrape_content_def io_try_def io_bind_def io_return_def io_lift_def print_eq
      raise_for_status_def split: prod.splits sum.splits)

lemma decompose_query_eq:
  "decompose_query env user_query w =
     (case generate_response env (decompose_prompt user_query) ''openai'' w of
        (Inl e, w') \<Rightarrow> (Inl e, w')
      | (Inr None, w') \<Rightarrow> (Inr [user_query], w')
      | (Inr (Some reply), w') \<Rightarrow>
          (if reply = [] then (Inr [user_query], w')
           else if response_queries reply = [] then (Inr [user_query], w')
           else (Inr (response_queries reply), w')))"
  by (simp add: decompose_query_def io_bind_def io_return_def Let_def
      split: prod.splits sum.splits option.splits)

lemma decompose_query_returns:
  "\<exists>qs w'. decompose_query env user_query w = (Inr qs, w') \<and> qs \<noteq> []"
proof -
  obtain v w1 where "generate_response env (decompose_prompt user_query) ''openai'' w = (Inr v, w1)"
    using generate_response_returns [of env "decompose_prompt user_query" "''openai''" w] by auto
  then show ?thesis
    by (simp add: decompose_query_eq split: option.splits)
qed

lemma get_relevant_answer_eq:
  "get_relevant_answer env q sources w =
     (Inr (case fst (openai_create env (answer_prompt q sources) w) of
             Inl e \<Rightarrow> None
           | Inr c \<Rightarrow> c),
      snd (openai_create env (answer_prompt q sources) w))"
  by (cases "openai_create env (answer_prompt q sources) w")
    (simp add: get_relevant_answer_def generate_response_openai split: sum.splits)

text \<open>The only exception that leaves a function is that of a \<open>print\<close>.\<close>

lemma perform_search_error:
  "fst (perform_search env query n w) = Inl e \<Longrightarrow>
     e = Exception ''UnicodeEncodeError'' \<and> \<not> utf8_encodable query"
  by (cases "ddgs_text env query n w") (auto simp: perform_search_eq split: sum.splits if_splits)

lemma scrape_content_error:
  "fst (scrape_content env url w) = Inl e \<Longrightarrow>
     e = Exception ''UnicodeEncodeError'' \<and> \<not> utf8_encodable (format_opt url)"
  by (cases "requests_get env url w") (auto simp: scrape_content_eq split: sum.splits if_splits)

lemma search_loop_error:
  "fst (search_loop env acc qs w) = Inl e \<Longrightarrow> e = Exception ''UnicodeEncodeError''"
proof (induction qs arbitrary: acc w)
  case Nil
  then show ?case by (simp add: io_return_def)
next
  case (Cons q qs)
  show ?case
  proof (cases "utf8_encodable q")
    case False
    with Cons.prems show ?thesis by (simp add: io_bind_def print_eq)
  next
    case True
    show ?thesis
    proof (cases "perform_search env q 2 w")
      case (Pair r w1)
      show ?thesis
      proof (cases r)
        case (Inl e')
        with Pair True Cons.prems perform_search_error [of env q 2 w e'] show ?thesis
          by (simp add: io_bind_def print_eq)
      next
        case (Inr rs)
        with Pair True Cons.prems Cons.IH [of "acc @ rs" w1] show ?thesis
          by (simp add: io_bind_def print_eq)
      qed
    qed
  qed
qed

lemma scrape_loop_error:
  "fst (scrape_loop env acc sel w) = Inl e \<Longrightarrow> e = Exception ''UnicodeEncodeError''"
proof (induction sel arbitrary: acc w)
  case Nil
  then show ?case by (simp add: io_return_def)
next
  case (Cons res sel)
  show ?case
  proof (cases "utf8_encodable (format_opt (link res))")
    case False
    with Cons.prems show ?thesis by (simp add: io_bind_def print_eq)
  next
    case True
    show ?thesis
    proof (cases "scrape_content env (link res) w")
      case (Pair r w1)
      show ?thesis
      proof (cases r)
        case (Inl e')
        with Pair True Cons.prems scrape_content_error [of env "link res" w e'] show ?thesis
          by (simp add: io_bind_def print_eq)
      next
        case (Inr page_text)
        with Pair True Cons.prems Cons.IH [of "acc @ [res\<lparr>content := Some page_text\<rparr>]" w1]
        show ?thesis
          by (simp add: io_bind_def print_eq)
      qed
    qed
  qed
qed

lemma web_search_task_error:
  "fst (web_search_task env q w) = Inl e \<Longrightarrow> e = Exception ''UnicodeEncodeError''"
proof -
  assume raised: "fst (web_search_task env q w) = Inl e"
  obtain sub_queries w1 where d: "decompose_query env q w = (Inr sub_queries, w1)"
    using decompose_query_returns [of env q w] by auto
  show ?thesis
  proof (cases "search_loop env [] sub_queries w1")
    case (Pair r w2)
    show ?thesis
    proof (cases r)
      case (Inl e')
      with Pair d raised search_loop_error [of env "[]" sub_queries w1 e'] show ?thesis
        by (simp add: web_search_task_def io_bind_def print_eq)
    next
      case (Inr all_results)
      show ?thesis
      proof (cases "scrape_loop env [] (dedupeAndSelect 3 all_results) w2")
        case sc: (Pair r' w3)
        show ?thesis
        proof (cases r')
          case (Inl e')
          with sc Pair Inr d raised
            scrape_loop_error [of env "[]" "dedupeAndSelect 3 all_results" w2 e']
          show ?thesis
            by (simp add: web_search_task_def io_bind_def print_eq)
        next
          case fin: (Inr final_results)
          with sc Pair Inr d raised get_relevant_answer_eq [of env q final_results w3]
          show ?thesis
            by (simp add: web_search_task_def io_bind_def print_eq)
        qed
      qed
    qed
  qed
qed

section \<open>Properties of the string operations\<close>

text \<open>
  Splitting loses nothing: joining the pieces with the separator gives the string back,
  and no piece contains the separator.
\<close>

lemma split_on_not_Nil: "split_on sep s \<noteq> []"
  by (induction s) (auto split: list.splits)

lemma join_split_on: "join [sep] (split_on sep s) = s"
proof (induction s)
  case Nil
  show ?case by simp
next
  case (Cons c cs)
  obtain p ps where sp: "split_on sep cs = p # ps"
    using split_on_not_Nil [of sep cs] by (cases "split_on sep cs") auto
  with Cons.IH show ?case
    by (cases ps) auto
qed

lemma split_on_examples:
  "split_on newline [] = [[]]"
  "split_on newline (lit ''a'' @ [newline]) = [lit ''a'', []]"
  "split_on newline [newline] = [[], []]"
  by (simp_all add: lit_def)

text \<open>The pieces of a whitespace split are non-empty and free of whitespace.\<close>

lemma split_ws_words:
  "p \<in> set (split_ws s) \<Longrightarrow> p \<noteq> [] \<and> list_all (\<lambda>c. \<not> isspace c) p"
proof (induction s arbitrary: p rule: split_ws.induct)
  case 1
  then show ?case by simp
next
  case (2 c cs)
  show ?case
  proof (cases "isspace c")
    case True
    with 2 show ?thesis by simp
  next
    case False
    have run: "list_all (\<lambda>d. \<not> isspace d) (takeWhile (\<lambda>d. \<not> isspace d) cs)"
      by (simp add: list_all_iff) (metis set_takeWhileD)
    from "2.prems" False
    consider "p = c # takeWhile (\<lambda>d. \<not> isspace d) cs"
      | "p \<in> set (split_ws (dropWhile (\<lambda>d. \<not> isspace d) cs))"
      by auto
    then show ?thesis
    proof cases
      case 1
      with False run show ?thesis by simp
    next
      case 2
      with "2.IH"(2) [OF False] show ?thesis by blast
    qed
  qed
qed

lemma strip_where_all:
  "(\<And>c. c \<in> set s \<Longrightarrow> P c) \<Longrightarrow> strip_where P s = []"
proof -
  assume "\<And>c. c \<in> set s \<Longrightarrow> P c"
  then show ?thesis
    by (auto simp: strip_where_def dest: set_dropWhileD)
qed

lemma strip_where_Nil: "strip_where P [] = []"
  by (simp add: strip_where_def)

lemma response_queries_eq:
  "response_queries reply =
     map (\<lambda>l. strip_chars [dquote] (strip l)) (filter (\<lambda>l. strip l \<noteq> []) (split_on newline reply))"
proof -
  have "[f q. q \<leftarrow> xs, P q] = map f (filter P xs)" for f :: "str \<Rightarrow> str" and P xs
    by (induction xs) simp_all
  then show ?thesis by (simp only: response_queries_def)
qed

lemma spec_parse_response_queries:
  "spec_parse reply = filter (\<lambda>s. s \<noteq> []) (response_queries reply)"
proof -
  have "filter (\<lambda>s. s \<noteq> []) (map (\<lambda>l. strip_chars [dquote] (strip l)) xs) =
        filter (\<lambda>s. s \<noteq> []) (map (\<lambda>l. strip_chars [dquote] (strip l)) (filter (\<lambda>l. strip l \<noteq> []) xs))"
    for xs
    by (induction xs) (simp_all add: strip_chars_def strip_where_Nil)
  then show ?thesis
    by (simp only: spec_parse_def response_queries_eq)
qed

lemma split_on_Nil_strip:
  "l \<in> set (split_on newline []) \<Longrightarrow> strip l = []"
  by (simp add: strip_def strip_where_Nil)

lemma strip_where_eq_Nil_iff:
  "strip_where P s = [] \<longleftrightarrow> (\<forall>c\<in>set s. P c)"
proof
  assume "strip_where P s = []"
  then have all: "\<forall>c\<in>set (dropWhile P s). P c"
    by (simp add: strip_where_def)
  have "dropWhile P s = []"
  proof (rule ccontr)
    assume ne: "dropWhile P s \<noteq> []"
    then have "\<not> P (hd (dropWhile P s))" by (rule hd_dropWhile)
    moreover from ne have "hd (dropWhile P s) \<in> set (dropWhile P s)" by simp
    ultimately show False using all by blast
  qed
  then show "\<forall>c\<in>set s. P c" by (simp only: dropWhile_eq_Nil_conv)
next
  assume "\<forall>c\<in>set s. P c"
  then show "strip_where P s = []" by (intro strip_where_all) blast
qed

section \<open>Deduplication: the claims\<close>

lemma length_dedupe_loop:
  "length (dedupe_loop S [] cs) = card (link ` set cs - S)"
proof -
  have "length (dedupe_loop S [] cs) = length (map link (dedupe_loop S [] cs))"
    by simp
  also have "\<dots> = card (set (map link (dedupe_loop S [] cs)))"
    using dedupe_loop_distinct [of S cs] by (simp only: distinct_card)
  finally show ?thesis
    by (simp only: dedupe_loop_links)
qed

lemma distinct_links_take:
  "distinct (map link xs) \<Longrightarrow> distinct (map link (take k xs))"
  by (simp add: take_map [symmetric])

text \<open>
  Claim C2. For every candidate list and every \<open>topK\<close>, \<open>dedupeAndSelect\<close> returns the
  candidates whose link occurs for the first time at their position, in input order, cut
  to the first \<open>topK\<close> entries; no two entries of the output have the same link, and the
  output has at most \<open>min topK d\<close> entries, where \<open>d\<close> is the number of distinct links
  of the input. (The pipeline calls it with \<open>topK = 3\<close>.)
\<close>

theorem dedupeAndSelect_first_occurrences:
  "dedupeAndSelect topK cs = take topK (first_occurrences cs) \<and>
   distinct (map link (dedupeAndSelect topK cs)) \<and>
   length (dedupeAndSelect topK cs) \<le> min topK (card (link ` set cs))"
proof -
  have "dedupe_loop {} [] cs = first_occurrences cs"
    using dedupe_loop_index [of "{}" cs] by (simp add: first_occurrences_def)
  then have a: "dedupeAndSelect topK cs = take topK (first_occurrences cs)"
    by (simp add: dedupeAndSelect_def)
  have b: "distinct (map link (dedupeAndSelect topK cs))"
    unfolding dedupeAndSelect_def
    by (rule distinct_links_take) (rule dedupe_loop_distinct)
  have c: "length (dedupeAndSelect topK cs) \<le> min topK (card (link ` set cs))"
    using length_dedupe_loop [of "{}" cs] by (simp add: dedupeAndSelect_def)
  from a b c show ?thesis by blast
qed

text \<open>
  The scenario of the specification: candidates with links \<open>a, b, a, c\<close> and
  \<open>topK = 2\<close> give the first \<open>a\<close> and \<open>b\<close>; the later \<open>a\<close>, with another title, is dropped.
\<close>

lemma dedupeAndSelect_scenario:
  "dedupeAndSelect 2
     [\<lparr>title = None, link = Some (lit ''a''), description = None, content = None\<rparr>,
      \<lparr>title = None, link = Some (lit ''b''), description = None, content = None\<rparr>,
      \<lparr>title = Some (lit ''x''), link = Some (lit ''a''), description = None, content = None\<rparr>,
      \<lparr>title = None, link = Some (lit ''c''), description = None, content = None\<rparr>] =
     [\<lparr>title = None, link = Some (lit ''a''), description = None, content = None\<rparr>,
      \<lparr>title = None, link = Some (lit ''b''), description = None, content = None\<rparr>]"
  by (simp add: dedupeAndSelect_def lit_def)

text \<open>
  Claim C8. \<open>dedupeAndSelect\<close> is idempotent: applied, with the same \<open>topK\<close>, to its own
  output it returns that output unchanged.
\<close>

theorem dedupeAndSelect_idempotent:
  "dedupeAndSelect topK (dedupeAndSelect topK cs) = dedupeAndSelect topK cs"
proof -
  let ?ys = "take topK (dedupe_loop {} [] cs)"
  have "distinct (map link ?ys)"
    by (rule distinct_links_take) (rule dedupe_loop_distinct)
  then have "dedupe_loop {} [] ?ys = ?ys"
    by (rule dedupe_loop_fixed) simp
  then show ?thesis
    by (simp add: dedupeAndSelect_def)
qed

text \<open>
  Claim C9. A provider result without an \<open>href\<close> field is still emitted by
  \<open>perform_search\<close>, with \<open>link = None\<close> (every provider result gives one entry whose
  link is the value of \<open>r.get('href')\<close>), and the deduplication treats \<open>None\<close> as an
  ordinary key: of all the results without a link only the first is kept, whatever the
  titles and descriptions of the later ones.
\<close>

theorem linkless_results_collapse:
  "ddgs_text env q n w = (Inr raws, w') \<Longrightarrow>
     perform_search env q n w = (Inr (map search_entry raws), w') \<and>
     map link (map search_entry raws) = map (\<lambda>raw. raw ''href'') raws \<and>
     filter (\<lambda>r. link r = None) (dedupe_loop {} [] cs) = take 1 (filter (\<lambda>r. link r = None) cs)"
  using dedupe_loop_key [of None "{}" cs]
  by (simp add: perform_search_eq search_entry_def)

text \<open>
  Two provider results with different titles and no \<open>href\<close>: both are emitted with
  \<open>link = None\<close>, and the deduplication keeps the first only.
\<close>

theorem linkless_results_collapse_witness:
  "ddgs_text (script_env (Inr [[''title'' \<mapsto> lit ''A''], [''title'' \<mapsto> lit ''B'']]) (Inl (Exception ''offline'')))
      (lit ''q'') 2 [] = (Inr [[''title'' \<mapsto> lit ''A''], [''title'' \<mapsto> lit ''B'']], []) \<and>
   map link (map search_entry [[''title'' \<mapsto> lit ''A''], [''title'' \<mapsto> lit ''B'']]) = [None, None] \<and>
   filter (\<lambda>r. link r = None)
     (dedupe_loop {} [] (map search_entry [[''title'' \<mapsto> lit ''A''], [''title'' \<mapsto> lit ''B'']]))
     = [search_entry [''title'' \<mapsto> lit ''A'']] \<and>
   dedupe_loop {} [] (map search_entry [[''title'' \<mapsto> lit ''A''], [''title'' \<mapsto> lit ''B'']])
     = [search_entry [''title'' \<mapsto> lit ''A'']]"
proof -
  let ?raws = "[[''title'' \<mapsto> lit ''A''], [''title'' \<mapsto> lit ''B'']] :: raw_result list"
  let ?env = "script_env (Inr ?raws) (Inl (Exception ''offline''))"
  have found: "ddgs_text ?env (lit ''q'') 2 [] = (Inr ?raws, [])"
    by (simp add: script_env_def io_lift_def)
  note c = linkless_results_collapse [OF found, of "map search_entry ?raws"]
  from c have links: "map link (map search_entry ?raws) = [None, None]"
    by simp
  from c have first: "filter (\<lambda>r. link r = None) (dedupe_loop {} [] (map search_entry ?raws))
      = [search_entry [''title'' \<mapsto> lit ''A'']]"
    by (simp add: search_entry_def)
  have "dedupe_loop {} [] (map search_entry ?raws) = [search_entry [''title'' \<mapsto> lit ''A'']]"
    by (simp add: search_entry_def)
  with found links first show ?thesis by simp
qed

section \<open>Failure handling of the search and of the scraper\<close>

text \<open>
  When the query can be written to the standard output, \<open>perform_search\<close> returns, and
  returns the empty list when the provider call raises or gives no result.
\<close>

lemma perform_search_returns_encodable:
  "utf8_encodable query \<Longrightarrow>
   \<exists>rs w'. perform_search env query n w = (Inr rs, w') \<and>
     (((\<exists>e. fst (ddgs_text env query n w) = Inl e) \<or> fst (ddgs_text env query n w) = Inr [])
      \<longrightarrow> rs = [])"
  by (cases "ddgs_text env query n w") (auto simp: perform_search_eq split: sum.splits)





text \<open>
  Claim C5. Whatever the fetch does, a string that \<open>scrape_content\<close> returns has at most
  2000 characters; when the fetch, the status check and the extraction succeed it is the
  extracted text with every run of whitespace collapsed to one space, cut to its first
  2000 characters. A string is returned whenever the URL can be written to the standard
  output.
\<close>

theorem scrape_content_bounded:
  "(\<forall>page_text w'. scrape_content env url w = (Inr page_text, w') \<longrightarrow> length page_text \<le> 2000) \<and>
   (\<forall>response extracted.
      fst (requests_get env url w) = Inr response \<and>
      raise_for_status response = Inr () \<and>
      soup_text env (body response) = Inr extracted
      \<longrightarrow> fst (scrape_content env url w) = Inr (take 2000 (join [space] (split_ws extracted)))) \<and>
   (utf8_encodable (format_opt url) \<longrightarrow>
      (\<exists>page_text w'. scrape_content env url w = (Inr page_text, w')))"
  by (cases "requests_get env url w")
    (auto simp: scrape_content_eq raise_for_status_def split: sum.splits if_splits)

theorem scrape_content_bounded_witness:
  "scrape_content
     (script_env (Inr [])
        (Inr \<lparr>status_code = 200, body = lit ''a'' @ [space, newline, space] @ lit ''b''\<rparr>))
     (Some (lit ''http://a'')) [] = (Inr (lit ''a b''), []) \<and>
   length (lit ''a b'') \<le> 2000"
proof -
  let ?page = "\<lparr>status_code = 200, body = lit ''a'' @ [space, newline, space] @ lit ''b''\<rparr>"
  let ?env = "script_env (Inr []) (Inr ?page)"
  let ?url = "Some (lit ''http://a'')"
  have fetched: "fst (requests_get ?env ?url []) = Inr ?page \<and>
      raise_for_status ?page = Inr () \<and> soup_text ?env (body ?page) = Inr (body ?page)"
    by (simp add: script_env_def io_lift_def raise_for_status_def)
  note b = scrape_content_bounded [of ?env ?url "[]"]
  from b fetched
  have "fst (scrape_content ?env ?url []) = Inr (take 2000 (join [space] (split_ws (body ?page))))"
    by blast
  then have res: "fst (scrape_content ?env ?url []) = Inr (lit ''a b'')"
    by (simp add: lit_def isspace_def)
  have "snd (scrape_content ?env ?url []) = []"
    by (simp add: scrape_content_eq script_env_def io_lift_def split: sum.splits)
  with res have run: "scrape_content ?env ?url [] = (Inr (lit ''a b''), [])"
    by (simp add: prod_eq_iff)
  with b have "length (lit ''a b'') \<le> 2000" by blast
  with run show ?thesis by simp
qed

section \<open>The decomposition of the query\<close>

text \<open>
  Claim C3. For every query and every behaviour of the language model,
  \<open>decompose_query\<close> returns a non-empty list of sub-queries; when the model call raises
  or gives no response, when the response is the empty string, or when the list parsed
  from the response (the list \<open>queries\<close> of line 22) is empty, it returns the list whose
  only element is the original query.
\<close>

theorem decompose_query_nonempty:
  "\<exists>qs w'. decompose_query env q w = (Inr qs, w') \<and> qs \<noteq> [] \<and>
     ((\<exists>e. fst (openai_create env (decompose_prompt q) w) = Inl e) \<longrightarrow> qs = [q]) \<and>
     (fst (openai_create env (decompose_prompt q) w) = Inr None \<longrightarrow> qs = [q]) \<and>
     (\<forall>reply. fst (openai_create env (decompose_prompt q) w) = Inr (Some reply) \<and>
         (reply = [] \<or> response_queries reply = []) \<longrightarrow> qs = [q])"
  by (cases "openai_create env (decompose_prompt q) w")
    (auto simp: decompose_query_eq generate_response_openai split: sum.splits option.splits)

text \<open>The scenario of the specification: the decomposition call fails.\<close>

theorem decompose_query_nonempty_witness:
  "fst (openai_create (script_env (Inr []) (Inl (Exception ''offline'')))
          (decompose_prompt (lit ''best hiking trails''))
          [Inl (Exception ''quota'')]) = Inl (Exception ''quota'') \<and>
   fst (decompose_query (script_env (Inr []) (Inl (Exception ''offline'')))
          (lit ''best hiking trails'')
          [Inl (Exception ''quota'')]) = Inr [lit ''best hiking trails'']"
proof -
  let ?env = "script_env (Inr []) (Inl (Exception ''offline''))"
  let ?q = "lit ''best hiking trails''"
  let ?w = "[Inl (Exception ''quota'')] :: (exn + str option) list"
  have failed: "fst (openai_create ?env (decompose_prompt ?q) ?w) = Inl (Exception ''quota'')"
    by (simp add: script_env_def)
  obtain qs w' where run: "decompose_query ?env ?q ?w = (Inr qs, w')"
    and fallback: "(\<exists>e. fst (openai_create ?env (decompose_prompt ?q) ?w) = Inl e) \<longrightarrow> qs = [?q]"
    using decompose_query_nonempty [of ?env ?q ?w] by blast
  from failed fallback have "qs = [?q]" by blast
  with failed run show ?thesis by simp
qed

text \<open>
  Claim C7, as amended. For every non-empty response of the model in which no line
  consists of double quotes only (once its surrounding whitespace is trimmed),
  \<open>decompose_query\<close> returns the parse of the specification (the response split at each
  line feed, every line trimmed of its surrounding whitespace and then of its leading and
  trailing double quotes, the empty lines discarded) in line order when that parse is not
  empty, and the original query alone when it is empty.
\<close>

theorem decompose_query_parse:
  "openai_create env (decompose_prompt q) w = (Inr (Some reply), w') \<Longrightarrow> reply \<noteq> [] \<Longrightarrow>
   \<forall>l\<in>set (split_on newline reply). strip l \<noteq> [] \<longrightarrow> \<not> set (strip l) \<subseteq> {dquote} \<Longrightarrow>
   decompose_query env q w =
     (Inr (if spec_parse reply = [] then [q] else spec_parse reply), w')"
proof -
  assume call: "openai_create env (decompose_prompt q) w = (Inr (Some reply), w')"
    and nonempty: "reply \<noteq> []"
    and lines: "\<forall>l\<in>set (split_on newline reply). strip l \<noteq> [] \<longrightarrow> \<not> set (strip l) \<subseteq> {dquote}"
  have "s \<noteq> []" if "s \<in> set (response_queries reply)" for s
  proof -
    from that obtain l where l: "l \<in> set (split_on newline reply)" "strip l \<noteq> []"
      and s: "s = strip_chars [dquote] (strip l)"
      by (auto simp: response_queries_eq)
    from lines l have "\<not> set (strip l) \<subseteq> {dquote}" by blast
    then have "strip_where (\<lambda>c. c \<in> set [dquote]) (strip l) \<noteq> []"
      unfolding strip_where_eq_Nil_iff by auto
    with s show ?thesis by (simp add: strip_chars_def)
  qed
  then have "filter (\<lambda>s. s \<noteq> []) (response_queries reply) = response_queries reply"
    by (simp add: filter_id_conv)
  then have "spec_parse reply = response_queries reply"
    by (simp add: spec_parse_response_queries)
  with call nonempty show ?thesis
    by (simp add: decompose_query_eq generate_response_openai)
qed

text \<open>
  A response of three lines, the first quoted and ending in a carriage return, the
  second empty: the two sub-queries come back trimmed. A response of two blank lines:
  the original query comes back.
\<close>

theorem decompose_query_parse_witness:
  "decompose_query (script_env (Inr []) (Inl (Exception ''offline''))) (lit ''q'')
      [Inr (Some ([space, dquote] @ lit ''a b'' @ [dquote, 13, newline, newline] @ lit ''c''))]
     = (Inr [lit ''a b'', lit ''c''], []) \<and>
   decompose_query (script_env (Inr []) (Inl (Exception ''offline''))) (lit ''q'')
      [Inr (Some [space, newline, space])]
     = (Inr [lit ''q''], [])"
proof -
  let ?env = "script_env (Inr []) (Inl (Exception ''offline''))"
  let ?reply = "[space, dquote] @ lit ''a b'' @ [dquote, 13, newline, newline] @ lit ''c''"
  let ?blank = "[space, newline, space]"
  have call: "openai_create ?env (decompose_prompt (lit ''q'')) [Inr (Some ?reply)]
      = (Inr (Some ?reply), [])"
    by (simp add: script_env_def)
  have ne: "?reply \<noteq> []" by simp
  have lines: "\<forall>l\<in>set (split_on newline ?reply). strip l \<noteq> [] \<longrightarrow> \<not> set (strip l) \<subseteq> {dquote}"
    by (simp add: strip_def strip_where_def isspace_def lit_def)
  have parse: "spec_parse ?reply = [lit ''a b'', lit ''c'']"
    by (simp add: spec_parse_def strip_def strip_chars_def strip_where_def isspace_def lit_def)
  have first: "decompose_query ?env (lit ''q'') [Inr (Some ?reply)]
      = (Inr [lit ''a b'', lit ''c''], [])"
    using decompose_query_parse [OF call ne lines] parse by simp
  have call': "openai_create ?env (decompose_prompt (lit ''q'')) [Inr (Some ?blank)]
      = (Inr (Some ?blank), [])"
    by (simp add: script_env_def)
  have ne': "?blank \<noteq> []" by simp
  have lines': "\<forall>l\<in>set (split_on newline ?blank). strip l \<noteq> [] \<longrightarrow> \<not> set (strip l) \<subseteq> {dquote}"
    by (simp add: strip_def strip_where_def isspace_def)
  have parse': "spec_parse ?blank = []"
    by (simp add: spec_parse_def strip_def strip_chars_def strip_where_def isspace_def)
  have "decompose_query ?env (lit ''q'') [Inr (Some ?blank)] = (Inr [lit ''q''], [])"
    using decompose_query_parse [OF call' ne' lines'] parse' by simp
  with first show ?thesis by simp
qed

text \<open>
  Claim C7 as the specification states it fails twice. For the response of the two lines
  \<open>a\<close> and \<open>""\<close> the function returns \<open>a\<close> and the empty string, while the parse of the
  specification is \<open>a\<close> alone; for the response of one space the function returns the
  original query, while the parse is empty.
\<close>

theorem decompose_query_not_spec_parse:
  "fst (decompose_query (script_env (Inr []) (Inl (Exception ''offline''))) (lit ''q'')
          [Inr (Some (lit ''a'' @ [newline, dquote, dquote]))])
     \<noteq> Inr (spec_parse (lit ''a'' @ [newline, dquote, dquote])) \<and>
   fst (decompose_query (script_env (Inr []) (Inl (Exception ''offline''))) (lit ''q'')
          [Inr (Some [space])])
     \<noteq> Inr (spec_parse [space])"
  by (simp add: decompose_query_eq generate_response_openai response_queries_eq spec_parse_def
      script_env_def strip_def strip_chars_def strip_where_def isspace_def lit_def)

text \<open>
  Claim C10. \<open>decompose_query\<close> does not guarantee non-empty sub-queries: a line of the
  response that is not empty after trimming whitespace passes the test of line 22, and
  when it consists of double quotes only, the stripping of the quotes then leaves the
  empty string, which is an element of the returned list.
\<close>

theorem decompose_query_keeps_quote_only_line:
  "openai_create env (decompose_prompt q) w = (Inr (Some reply), w') \<Longrightarrow>
   l \<in> set (split_on newline reply) \<Longrightarrow> strip l \<noteq> [] \<Longrightarrow> set (strip l) \<subseteq> {dquote} \<Longrightarrow>
   \<exists>qs. decompose_query env q w = (Inr qs, w') \<and> [] \<in> set qs"
proof -
  assume call: "openai_create env (decompose_prompt q) w = (Inr (Some reply), w')"
    and line: "l \<in> set (split_on newline reply)"
    and kept: "strip l \<noteq> []"
    and quotes: "set (strip l) \<subseteq> {dquote}"
  from line kept have nonempty: "reply \<noteq> []"
    using split_on_Nil_strip by blast
  have "strip_chars [dquote] (strip l) = []"
    unfolding strip_chars_def using quotes by (intro strip_where_all) auto
  with line kept have mem: "[] \<in> set (response_queries reply)"
    by (force simp: response_queries_eq)
  then have "response_queries reply \<noteq> []" by auto
  with call nonempty mem show ?thesis
    by (simp add: decompose_query_eq generate_response_openai)
qed

text \<open>The response that is the two-character line \<open>""\<close> gives the empty sub-query.\<close>

theorem decompose_query_keeps_quote_only_line_witness:
  "decompose_query (script_env (Inr []) (Inl (Exception ''offline''))) (lit ''best hiking trails'')
      [Inr (Some [dquote, dquote])] = (Inr [[]], [])"
proof -
  let ?env = "script_env (Inr []) (Inl (Exception ''offline''))"
  let ?q = "lit ''best hiking trails''"
  let ?reply = "[dquote, dquote]"
  have call: "openai_create ?env (decompose_prompt ?q) [Inr (Some ?reply)] = (Inr (Some ?reply), [])"
    by (simp add: script_env_def)
  have line: "?reply \<in> set (split_on newline ?reply)"
    by simp
  have st: "strip ?reply = ?reply"
    by (simp add: strip_def strip_where_def isspace_def)
  obtain qs where run: "decompose_query ?env ?q [Inr (Some ?reply)] = (Inr qs, [])"
    and "[] \<in> set qs"
    using decompose_query_keeps_quote_only_line [OF call line] st by auto
  have "qs = [[]]"
    using run call st
    by (simp add: decompose_query_eq generate_response_openai response_queries_eq strip_chars_def strip_where_def)
  with run show ?thesis by simp
qed

section \<open>The orchestrator\<close>

text \<open>
  What holds of every run of \<open>web_search_task\<close>: either a \<open>print\<close> raises and its
  \<open>UnicodeEncodeError\<close> leaves the task, or the task returns what
  \<open>get_relevant_answer\<close> returns for the sources gathered, which is the content the model
  gives for the synthesis prompt, absent exactly when that last call raises or gives no
  content.
\<close>

lemma web_search_task_outcome:
  "fst (web_search_task env q w) = Inl (Exception ''UnicodeEncodeError'') \<or>
   (\<exists>final_results w3.
      web_search_task env q w =
        (Inr (case fst (openai_create env (answer_prompt q final_results) w3) of
                Inl e \<Rightarrow> None
              | Inr c \<Rightarrow> c),
         snd (openai_create env (answer_prompt q final_results) w3)))"
proof (cases "fst (web_search_task env q w)")
  case (Inl e)
  then show ?thesis using web_search_task_error [of env q w e] by simp
next
  case (Inr answer)
  obtain sub_queries w1 where d: "decompose_query env q w = (Inr sub_queries, w1)"
    using decompose_query_returns [of env q w] by auto
  obtain r2 w2 where s: "search_loop env [] sub_queries w1 = (r2, w2)"
    by (cases "search_loop env [] sub_queries w1")
  from Inr d s obtain all_results where a: "r2 = Inr all_results"
    by (cases r2) (auto simp: web_search_task_def io_bind_def print_eq)
  obtain r3 w3 where c: "scrape_loop env [] (dedupeAndSelect 3 all_results) w2 = (r3, w3)"
    by (cases "scrape_loop env [] (dedupeAndSelect 3 all_results) w2")
  from Inr d s a c obtain final_results where f: "r3 = Inr final_results"
    by (cases r3) (auto simp: web_search_task_def io_bind_def print_eq)
  have "web_search_task env q w = get_relevant_answer env q final_results w3"
    using d s a c f by (simp add: web_search_task_def io_bind_def print_eq)
  then show ?thesis
    using get_relevant_answer_eq [of env q final_results w3] by auto
qed

text \<open>
  A run in which the decomposition call fails and the only page cannot be fetched, while
  the synthesis call succeeds: the task returns the synthesised answer.
\<close>

lemma web_search_task_degraded_run:
  "web_search_task
     (script_env (Inr [[''title'' \<mapsto> lit ''A'', ''href'' \<mapsto> lit ''u'']])
        (Inl (Exception ''timed out'')))
     (lit ''q'')
     [Inl (Exception ''quota''), Inr (Some (lit ''ok''))]
   = (Inr (Some (lit ''ok'')), [])"
  by (simp add: web_search_task_def io_bind_def io_return_def io_lift_def print_eq
      decompose_query_eq generate_response_openai perform_search_eq scrape_content_eq
      get_relevant_answer_def dedupeAndSelect_def script_env_def search_entry_def
      format_opt_def is_surrogate_def lit_def)

text \<open>
  Claim C1, at the input where the code breaks it. The query is the one-character string
  of the lone surrogate U+D800 and the decomposition call fails, so the only sub-query
  is the query itself. Line 99 prints the list through \<open>repr\<close> and succeeds; line 105
  prints the sub-query itself, under no \<open>try\<close>, and its \<open>UnicodeEncodeError\<close> is raised
  to the caller of \<open>web_search_task\<close>, although the synthesis call would have answered.
\<close>

theorem web_search_task_print_raises:
  "fst (web_search_task (script_env (Inr []) (Inl (Exception ''offline''))) [55296]
          [Inl (Exception ''quota''), Inr (Some (lit ''ok''))])
     = Inl (Exception ''UnicodeEncodeError'')"
  by (simp add: web_search_task_def io_bind_def io_return_def io_lift_def print_eq
      decompose_query_eq generate_response_openai script_env_def is_surrogate_def)

end
